theory Spec2Isabelle
  imports Complex_Main
begin

section \<open>cryptofeed/standards.py: normalisation of exchange vocabularies\<close>

text \<open>
  The module translates trading pairs, channel names, order options and timestamps between
  the standard vocabulary and each exchange's own. Python strings are modelled as
  \<^typ>\<open>string\<close>; the only characters the code inspects (\<open>f\<close> and \<open>-\<close>) are ASCII, so
  the byte-wise view agrees with Python's code points on every test the code makes.
\<close>

subsection \<open>Constants imported from \<open>cryptofeed.defines\<close>\<close>

text \<open>
  Modelled from the spec: the module \<open>cryptofeed/defines.py\<close> is not part of the sources
  at hand. The spec addresses exchanges by their upper-case names (\<open>"KRAKEN"\<close>,
  \<open>"GEMINI"\<close>, \<open>"BINANCE"\<close>, \<open>"COINBASE"\<close>, \<open>"BITFINEX"\<close>) and order options by their
  lower-case names (\<open>"limit"\<close>, \<open>"market"\<close>); every constant below is the string that
  carries its own name in that convention. What the development relies on is that the
  constants are pairwise different strings and that no native value written in the
  tables equals \<open>UNSUPPORTED\<close>.
\<close>

definition BINANCE :: string where "BINANCE = ''BINANCE''"
definition BINANCE_FUTURES :: string where "BINANCE_FUTURES = ''BINANCE_FUTURES''"
definition BINANCE_DELIVERY :: string where "BINANCE_DELIVERY = ''BINANCE_DELIVERY''"
definition BINANCE_US :: string where "BINANCE_US = ''BINANCE_US''"
definition BITCOINCOM :: string where "BITCOINCOM = ''BITCOINCOM''"
definition BITFINEX :: string where "BITFINEX = ''BITFINEX''"
definition BITMAX :: string where "BITMAX = ''BITMAX''"
definition BITMEX :: string where "BITMEX = ''BITMEX''"
definition BITSTAMP :: string where "BITSTAMP = ''BITSTAMP''"
definition BITTREX :: string where "BITTREX = ''BITTREX''"
definition BLOCKCHAIN :: string where "BLOCKCHAIN = ''BLOCKCHAIN''"
definition BYBIT :: string where "BYBIT = ''BYBIT''"
definition COINBASE :: string where "COINBASE = ''COINBASE''"
definition COINBENE :: string where "COINBENE = ''COINBENE''"
definition DERIBIT :: string where "DERIBIT = ''DERIBIT''"
definition EXX :: string where "EXX = ''EXX''"
definition FTX :: string where "FTX = ''FTX''"
definition FTX_US :: string where "FTX_US = ''FTX_US''"
definition GATEIO :: string where "GATEIO = ''GATEIO''"
definition GEMINI :: string where "GEMINI = ''GEMINI''"
definition HITBTC :: string where "HITBTC = ''HITBTC''"
definition HUOBI :: string where "HUOBI = ''HUOBI''"
definition HUOBI_DM :: string where "HUOBI_DM = ''HUOBI_DM''"
definition HUOBI_SWAP :: string where "HUOBI_SWAP = ''HUOBI_SWAP''"
definition KRAKEN :: string where "KRAKEN = ''KRAKEN''"
definition KRAKEN_FUTURES :: string where "KRAKEN_FUTURES = ''KRAKEN_FUTURES''"
definition OKCOIN :: string where "OKCOIN = ''OKCOIN''"
definition OKEX :: string where "OKEX = ''OKEX''"
definition POLONIEX :: string where "POLONIEX = ''POLONIEX''"
definition PROBIT :: string where "PROBIT = ''PROBIT''"
definition UPBIT :: string where "UPBIT = ''UPBIT''"

definition L2_BOOK :: string where "L2_BOOK = ''l2_book''"
definition L3_BOOK :: string where "L3_BOOK = ''l3_book''"
definition TRADES :: string where "TRADES = ''trades''"
definition TICKER :: string where "TICKER = ''ticker''"
definition VOLUME :: string where "VOLUME = ''volume''"
definition FUNDING :: string where "FUNDING = ''funding''"
definition OPEN_INTEREST :: string where "OPEN_INTEREST = ''open_interest''"
definition LIQUIDATIONS :: string where "LIQUIDATIONS = ''liquidations''"
definition FUTURES_INDEX :: string where "FUTURES_INDEX = ''futures_index''"
definition UNSUPPORTED :: string where "UNSUPPORTED = ''unsupported''"

definition LIMIT :: string where "LIMIT = ''limit''"
definition MARKET :: string where "MARKET = ''market''"
definition FILL_OR_KILL :: string where "FILL_OR_KILL = ''fill-or-kill''"
definition IMMEDIATE_OR_CANCEL :: string where "IMMEDIATE_OR_CANCEL = ''immediate-or-cancel''"
definition MAKER_OR_CANCEL :: string where "MAKER_OR_CANCEL = ''maker-or-cancel''"

subsection \<open>Values, errors and the registry\<close>

text \<open>
  The static tables hold strings, integer channel codes (\<open>1002\<close>) and small dictionaries
  (\<open>{'time_in_force': 'FOK'}\<close>). Python's \<open>==\<close> between values of different shapes is
  false, which is the equality of this datatype.
\<close>

datatype pyval = PStr string | PInt int | PDict "(string \<times> pyval) list"

text \<open>
  The three exceptions of \<open>cryptofeed.exceptions\<close> that the module raises, with the
  message where the code gives one, and the \<open>IndexError\<close> of an out-of-range subscript.
\<close>

datatype error =
    UnsupportedTradingPair string
  | UnsupportedDataFeed string
  | UnsupportedTradingOption
  | IndexError

text \<open>
  The two module-level dictionaries \<open>_std_trading_pairs\<close> and \<open>_exchange_to_std\<close>.
\<close>

record registry =
  std_trading_pairs :: "string \<rightharpoonup> (string \<rightharpoonup> string)"
  exchange_to_std :: "string \<rightharpoonup> string"

definition empty_registry :: registry where
  "empty_registry = \<lparr>std_trading_pairs = Map.empty, exchange_to_std = Map.empty\<rparr>"

text \<open>
  A dictionary display \<open>{k1: v1, k2: v2, ...}\<close> inserts its items from left to right, a
  later item replacing an earlier one with an equal key.
\<close>

definition dict_of :: "('k \<times> 'v) list \<Rightarrow> ('k \<rightharpoonup> 'v)" where
  "dict_of kvs = foldl (\<lambda>m (k, v). m(k \<mapsto> v)) Map.empty kvs"

subsection \<open>Symbol registry\<close>

text \<open>
  The body of the loop of \<open>load_exchange_pair_mapping\<close>, for one item \<open>(std, exch)\<close> of
  the provider's dictionary.
\<close>

definition load_pair :: "string \<Rightarrow> registry \<Rightarrow> string \<times> string \<Rightarrow> registry" where
  "load_pair exchange reg item =
     (case item of (std, exch) \<Rightarrow>
        reg\<lparr>exchange_to_std := (exchange_to_std reg)(exch \<mapsto> std),
            std_trading_pairs :=
              (case std_trading_pairs reg std of
                 Some sub \<Rightarrow> (std_trading_pairs reg)(std \<mapsto> sub(exchange \<mapsto> exch))
               | None \<Rightarrow> (std_trading_pairs reg)(std \<mapsto> [exchange \<mapsto> exch]))\<rparr>)"

text \<open>
  \<open>gen_pairs\<close> belongs to \<open>cryptofeed.pairs\<close>, which queries the exchange; it is a
  parameter here, giving for an exchange the items of the dictionary it returns, in
  iteration order. A Python dictionary has each key once, so the first components of the
  items are distinct.
\<close>

definition load_exchange_pair_mapping ::
  "(string \<Rightarrow> (string \<times> string) list) \<Rightarrow> string \<Rightarrow> registry \<Rightarrow> registry" where
  "load_exchange_pair_mapping gen_pairs exchange reg =
     (if exchange \<in> {BITMEX, DERIBIT, KRAKEN_FUTURES} then reg
      else foldl (load_pair exchange) reg (gen_pairs exchange))"

definition pair_std_to_exchange :: "registry \<Rightarrow> string \<Rightarrow> string \<Rightarrow> error + string" where
  "pair_std_to_exchange reg pair exchange =
     (if exchange \<in> {BITMEX, DERIBIT, KRAKEN_FUTURES} then Inr pair
      else case std_trading_pairs reg pair of
        Some sub \<Rightarrow>
          (case sub exchange of
             Some exch \<Rightarrow> Inr exch
           | None \<Rightarrow> Inl (UnsupportedTradingPair (pair @ '' is not supported on '' @ exchange)))
      | None \<Rightarrow>
          if exchange = BITFINEX \<and> CHR ''-'' \<notin> set pair then Inr (CHR ''f'' # pair)
          else Inl (UnsupportedTradingPair (pair @ '' is not supported on '' @ exchange)))"

text \<open>
  \<open>pair[0]\<close> raises \<open>IndexError\<close> on the empty string; \<open>pair[1:]\<close> is the rest of the
  string. The result \<open>None\<close> of the source is \<open>Inr None\<close>.
\<close>

definition pair_exchange_to_std :: "registry \<Rightarrow> string \<Rightarrow> error + string option" where
  "pair_exchange_to_std reg pair =
     (case exchange_to_std reg pair of
        Some std \<Rightarrow> Inr (Some std)
      | None \<Rightarrow>
          (case pair of
             [] \<Rightarrow> Inl IndexError
           | c # rest \<Rightarrow> if c = CHR ''f'' then Inr (Some rest) else Inr None))"

subsection \<open>Timestamps\<close>

text \<open>
  \<open>pd.Timestamp(ts).timestamp()\<close> is pandas' parser and Python's \<open>/\<close> on a float is IEEE
  division; both are parameters of the model, so that what is proved is the dispatch on
  the exchange and holds for whatever the two operations compute. The value \<open>ts\<close> is of
  any type, as in the source, which returns it as it is in the last branch.
\<close>

definition timestamp_normalize ::
  "('t \<Rightarrow> 't) \<Rightarrow> ('t \<Rightarrow> real \<Rightarrow> 't) \<Rightarrow> string \<Rightarrow> 't \<Rightarrow> 't" where
  "timestamp_normalize pd_timestamp truediv exchange ts =
     (if exchange \<in> {BITMEX, COINBASE, HITBTC, OKCOIN, OKEX, FTX, FTX_US, BITCOINCOM,
                      BLOCKCHAIN, PROBIT}
      then pd_timestamp ts
      else if exchange \<in> {HUOBI, HUOBI_DM, HUOBI_SWAP, BITFINEX, BYBIT, COINBENE, DERIBIT,
                           BINANCE, BINANCE_US, BINANCE_FUTURES, BINANCE_DELIVERY, GEMINI,
                           BITTREX, BITMAX, KRAKEN_FUTURES, UPBIT}
      then truediv ts 1000
      else if exchange \<in> {BITSTAMP} then truediv ts 1000000
      else ts)"

text \<open>The two classes of the source that divide, as the sets written there.\<close>

definition millisecond_exchanges :: "string set" where
  "millisecond_exchanges =
     {HUOBI, HUOBI_DM, HUOBI_SWAP, BITFINEX, BYBIT, COINBENE, DERIBIT, BINANCE, BINANCE_US,
      BINANCE_FUTURES, BINANCE_DELIVERY, GEMINI, BITTREX, BITMAX, KRAKEN_FUTURES, UPBIT}"

definition microsecond_exchanges :: "string set" where
  "microsecond_exchanges = {BITSTAMP}"

definition parsed_exchanges :: "string set" where
  "parsed_exchanges =
     {BITMEX, COINBASE, HITBTC, OKCOIN, OKEX, FTX, FTX_US, BITCOINCOM, BLOCKCHAIN, PROBIT}"

subsection \<open>Channel names\<close>

text \<open>The static table \<open>_feed_to_exchange_map\<close>, item by item as the source writes it.\<close>

definition feed_to_exchange_map :: "string \<rightharpoonup> (string \<rightharpoonup> pyval)" where
  "feed_to_exchange_map = dict_of [
     (L2_BOOK, dict_of [
        (BITFINEX, PStr ''book-P0-F0-100''),
        (POLONIEX, PStr L2_BOOK),
        (HITBTC, PStr ''subscribeOrderbook''),
        (COINBASE, PStr ''level2''),
        (BITMEX, PStr ''orderBookL2''),
        (BITSTAMP, PStr ''diff_order_book''),
        (KRAKEN, PStr ''book''),
        (KRAKEN_FUTURES, PStr ''book''),
        (BINANCE, PStr ''depth@100ms''),
        (BINANCE_US, PStr ''depth@100ms''),
        (BINANCE_FUTURES, PStr ''depth@100ms''),
        (BINANCE_DELIVERY, PStr ''depth@100ms''),
        (BLOCKCHAIN, PStr ''l2''),
        (EXX, PStr ''ENTRUST_ADD''),
        (HUOBI, PStr ''depth.step0''),
        (HUOBI_DM, PStr ''depth.step0''),
        (HUOBI_SWAP, PStr ''depth.step0''),
        (OKCOIN, PStr ''spot/depth_l2_tbt''),
        (OKEX, PStr ''{}/depth_l2_tbt''),
        (COINBENE, PStr L2_BOOK),
        (DERIBIT, PStr ''book''),
        (BYBIT, PStr ''orderBookL2_25''),
        (FTX, PStr ''orderbook''),
        (FTX_US, PStr ''orderbook''),
        (GEMINI, PStr L2_BOOK),
        (BITTREX, PStr ''SubscribeToExchangeDeltas''),
        (BITCOINCOM, PStr ''subscribeOrderbook''),
        (BITMAX, PStr L2_BOOK),
        (UPBIT, PStr L2_BOOK),
        (GATEIO, PStr ''depth.subscribe''),
        (PROBIT, PStr ''order_books'')]),
     (L3_BOOK, dict_of [
        (BITFINEX, PStr ''book-R0-F0-100''),
        (BITSTAMP, PStr ''detail_order_book''),
        (HITBTC, PStr UNSUPPORTED),
        (COINBASE, PStr ''full''),
        (BITMEX, PStr UNSUPPORTED),
        (POLONIEX, PStr UNSUPPORTED),
        (KRAKEN, PStr UNSUPPORTED),
        (KRAKEN_FUTURES, PStr UNSUPPORTED),
        (BINANCE, PStr UNSUPPORTED),
        (BINANCE_US, PStr UNSUPPORTED),
        (BINANCE_FUTURES, PStr UNSUPPORTED),
        (BINANCE_DELIVERY, PStr UNSUPPORTED),
        (BLOCKCHAIN, PStr ''l3''),
        (EXX, PStr UNSUPPORTED),
        (HUOBI, PStr UNSUPPORTED),
        (HUOBI_DM, PStr UNSUPPORTED),
        (OKCOIN, PStr UNSUPPORTED),
        (OKEX, PStr UNSUPPORTED),
        (BYBIT, PStr UNSUPPORTED),
        (FTX, PStr UNSUPPORTED),
        (FTX_US, PStr UNSUPPORTED),
        (GEMINI, PStr UNSUPPORTED),
        (BITCOINCOM, PStr UNSUPPORTED),
        (BITMAX, PStr UNSUPPORTED),
        (UPBIT, PStr UNSUPPORTED),
        (PROBIT, PStr UNSUPPORTED)]),
     (TRADES, dict_of [
        (POLONIEX, PStr TRADES),
        (HITBTC, PStr ''subscribeTrades''),
        (BITSTAMP, PStr ''live_trades''),
        (BITFINEX, PStr ''trades''),
        (COINBASE, PStr ''matches''),
        (BITMEX, PStr ''trade''),
        (KRAKEN, PStr ''trade''),
        (KRAKEN_FUTURES, PStr ''trade''),
        (BINANCE, PStr ''aggTrade''),
        (BINANCE_US, PStr ''aggTrade''),
        (BINANCE_FUTURES, PStr ''aggTrade''),
        (BINANCE_DELIVERY, PStr ''aggTrade''),
        (BLOCKCHAIN, PStr ''trades''),
        (EXX, PStr ''TRADE''),
        (HUOBI, PStr ''trade.detail''),
        (HUOBI_DM, PStr ''trade.detail''),
        (HUOBI_SWAP, PStr ''trade.detail''),
        (OKCOIN, PStr ''spot/trade''),
        (OKEX, PStr ''{}/trade''),
        (COINBENE, PStr TRADES),
        (DERIBIT, PStr ''trades''),
        (BYBIT, PStr ''trade''),
        (FTX, PStr ''trades''),
        (FTX_US, PStr ''trades''),
        (GEMINI, PStr TRADES),
        (BITTREX, PStr TRADES),
        (BITCOINCOM, PStr ''subscribeTrades''),
        (BITMAX, PStr TRADES),
        (UPBIT, PStr TRADES),
        (GATEIO, PStr ''trades.subscribe''),
        (PROBIT, PStr ''recent_trades'')]),
     (TICKER, dict_of [
        (POLONIEX, PInt 1002),
        (HITBTC, PStr ''subscribeTicker''),
        (BITFINEX, PStr ''ticker''),
        (BITSTAMP, PStr UNSUPPORTED),
        (COINBASE, PStr ''ticker''),
        (BITMEX, PStr ''quote''),
        (KRAKEN, PStr TICKER),
        (KRAKEN_FUTURES, PStr ''ticker_lite''),
        (BINANCE, PStr ''ticker''),
        (BINANCE_US, PStr ''ticker''),
        (BINANCE_FUTURES, PStr ''ticker''),
        (BINANCE_DELIVERY, PStr ''ticker''),
        (BLOCKCHAIN, PStr UNSUPPORTED),
        (HUOBI, PStr UNSUPPORTED),
        (HUOBI_DM, PStr UNSUPPORTED),
        (OKCOIN, PStr ''{}/ticker''),
        (OKEX, PStr ''{}/ticker''),
        (COINBENE, PStr TICKER),
        (DERIBIT, PStr ''ticker''),
        (BYBIT, PStr UNSUPPORTED),
        (FTX, PStr ''ticker''),
        (FTX_US, PStr ''ticker''),
        (GEMINI, PStr UNSUPPORTED),
        (BITTREX, PStr ''SubscribeToSummaryDeltas''),
        (BITCOINCOM, PStr ''subscribeTicker''),
        (BITMAX, PStr UNSUPPORTED),
        (UPBIT, PStr UNSUPPORTED),
        (GATEIO, PStr UNSUPPORTED),
        (PROBIT, PStr UNSUPPORTED)]),
     (VOLUME, dict_of [
        (POLONIEX, PInt 1003)]),
     (FUNDING, dict_of [
        (BITMEX, PStr ''funding''),
        (BITFINEX, PStr ''trades''),
        (BINANCE_FUTURES, PStr ''markPrice''),
        (BINANCE_DELIVERY, PStr ''markPrice''),
        (KRAKEN_FUTURES, PStr ''ticker''),
        (DERIBIT, PStr ''ticker''),
        (OKEX, PStr ''{}/funding_rate''),
        (FTX, PStr ''funding''),
        (HUOBI_SWAP, PStr ''funding'')]),
     (OPEN_INTEREST, dict_of [
        (OKEX, PStr ''{}/ticker''),
        (BITMEX, PStr ''instrument''),
        (KRAKEN_FUTURES, PStr ''ticker''),
        (DERIBIT, PStr ''ticker''),
        (FTX, PStr ''open_interest''),
        (BINANCE_FUTURES, PStr ''open_interest''),
        (BINANCE_DELIVERY, PStr ''open_interest''),
        (BYBIT, PStr ''instrument_info.100ms'')]),
     (LIQUIDATIONS, dict_of [
        (BITMEX, PStr ''liquidation''),
        (BINANCE_FUTURES, PStr ''forceOrder''),
        (BINANCE_DELIVERY, PStr ''forceOrder''),
        (FTX, PStr ''trades''),
        (DERIBIT, PStr ''trades''),
        (OKEX, PStr LIQUIDATIONS)]),
     (FUTURES_INDEX, dict_of [
        (BYBIT, PStr ''instrument_info.100ms'')])]"

text \<open>
  The logger \<open>LOG\<close> is state: the list of the exceptions handed to \<open>LOG.error\<close>, oldest
  first. \<open>raise_error\<close> is the inner function of \<open>feed_to_exchange\<close>; it builds the
  exception, logs it unless \<open>silent\<close>, and raises it.
\<close>

type_synonym log = "error list"

definition raise_error :: "string \<Rightarrow> string \<Rightarrow> bool \<Rightarrow> log \<Rightarrow> (error + pyval) \<times> log" where
  "raise_error exchange feed silent lg =
     (let exception = UnsupportedDataFeed (feed @ '' is not currently supported on '' @ exchange)
      in (Inl exception, if \<not> silent then lg @ [exception] else lg))"

text \<open>
  \<open>feed_to_exchange\<close> reads the registry (through \<open>pair_std_to_exchange\<close>) and may write
  the log; it returns the outcome and the log. Each of the two subscripts of
  \<open>_feed_to_exchange_map[feed][exchange]\<close> raises \<open>KeyError\<close> on a missing key, and
  the handler calls \<open>raise_error\<close>.
\<close>

definition feed_to_exchange ::
  "registry \<Rightarrow> string \<Rightarrow> string \<Rightarrow> bool \<Rightarrow> log \<Rightarrow> (error + pyval) \<times> log" where
  "feed_to_exchange reg exchange feed silent lg =
     (if exchange = POLONIEX \<and> feed_to_exchange_map feed = None
      then (map_sum id PStr (pair_std_to_exchange reg feed POLONIEX), lg)
      else case feed_to_exchange_map feed of
        None \<Rightarrow> raise_error exchange feed silent lg
      | Some by_exchange \<Rightarrow>
          (case by_exchange exchange of
             None \<Rightarrow> raise_error exchange feed silent lg
           | Some ret \<Rightarrow>
               if ret = PStr UNSUPPORTED then raise_error exchange feed silent lg
               else (Inr ret, lg)))"

subsection \<open>Order options\<close>

text \<open>The static table \<open>_exchange_options\<close>.\<close>

definition exchange_options :: "string \<rightharpoonup> (string \<rightharpoonup> pyval)" where
  "exchange_options = dict_of [
     (LIMIT, dict_of [
        (KRAKEN, PStr ''limit''),
        (GEMINI, PStr ''exchange limit''),
        (POLONIEX, PStr ''limit''),
        (COINBASE, PStr ''limit''),
        (BLOCKCHAIN, PStr ''limit'')]),
     (MARKET, dict_of [
        (KRAKEN, PStr ''market''),
        (GEMINI, PStr UNSUPPORTED),
        (POLONIEX, PStr UNSUPPORTED),
        (COINBASE, PStr ''market''),
        (BLOCKCHAIN, PStr ''market'')]),
     (FILL_OR_KILL, dict_of [
        (GEMINI, PStr ''fill-or-kill''),
        (POLONIEX, PStr ''fillOrKill''),
        (COINBASE, PDict [(''time_in_force'', PStr ''FOK'')]),
        (KRAKEN, PStr UNSUPPORTED),
        (BLOCKCHAIN, PStr ''FOK'')]),
     (IMMEDIATE_OR_CANCEL, dict_of [
        (GEMINI, PStr ''immediate-or-cancel''),
        (POLONIEX, PStr ''immediateOrCancel''),
        (COINBASE, PDict [(''time_in_force'', PStr ''IOC'')]),
        (KRAKEN, PStr UNSUPPORTED),
        (BLOCKCHAIN, PStr ''IOC'')]),
     (MAKER_OR_CANCEL, dict_of [
        (GEMINI, PStr ''maker-or-cancel''),
        (POLONIEX, PStr ''postOnly''),
        (COINBASE, PDict [(''post_only'', PInt 1)]),
        (KRAKEN, PStr ''post'')])]"

definition normalize_trading_options :: "string \<Rightarrow> string \<Rightarrow> error + pyval" where
  "normalize_trading_options exchange option =
     (case exchange_options option of
        None \<Rightarrow> Inl UnsupportedTradingOption
      | Some by_exchange \<Rightarrow>
          (case by_exchange exchange of
             None \<Rightarrow> Inl UnsupportedTradingOption
           | Some ret \<Rightarrow>
               if ret = PStr UNSUPPORTED then Inl UnsupportedTradingOption else Inr ret))"

subsection \<open>Reading a two-level table, and sample inputs\<close>

text \<open>
  The entry of a nested dictionary at a pair of keys: \<open>None\<close> when the outer key is
  missing or the inner dictionary lacks the inner key.
\<close>

definition lookup2 :: "('a \<rightharpoonup> ('b \<rightharpoonup> 'c)) \<Rightarrow> 'a \<Rightarrow> 'b \<Rightarrow> 'c option" where
  "lookup2 table outer inner = (case table outer of None \<Rightarrow> None | Some sub \<Rightarrow> sub inner)"


text \<open>
  Outputs of the pair provider used as concrete inputs below. Each gives every exchange a
  dictionary with distinct keys and, within the exchange, distinct native symbols. In the
  first all exchanges have the same two pairs. In the second KRAKEN names its pairs its
  own way and the other exchanges use the standard symbols. In the third KRAKEN and the
  other exchanges use one native symbol for two different standard symbols. The two
  registries are the empty one warmed with the first output, for one exchange each.
\<close>

definition sample_pairs :: "string \<Rightarrow> (string \<times> string) list" where
  "sample_pairs exchange = [(''BTC-USD'', ''XBT/USD''), (''ETH-USD'', ''ETH/USD'')]"



definition sample_registry :: registry where
  "sample_registry = load_exchange_pair_mapping sample_pairs KRAKEN empty_registry"

definition poloniex_registry :: registry where
  "poloniex_registry = load_exchange_pair_mapping sample_pairs POLONIEX empty_registry"

section \<open>Properties\<close>

subsection \<open>Unfolding the constants\<close>

lemmas exchange_defs =
  BINANCE_def BINANCE_FUTURES_def BINANCE_DELIVERY_def BINANCE_US_def BITCOINCOM_def
  BITFINEX_def BITMAX_def BITMEX_def BITSTAMP_def BITTREX_def BLOCKCHAIN_def BYBIT_def
  COINBASE_def COINBENE_def DERIBIT_def EXX_def FTX_def FTX_US_def GATEIO_def GEMINI_def
  HITBTC_def HUOBI_def HUOBI_DM_def HUOBI_SWAP_def KRAKEN_def KRAKEN_FUTURES_def
  OKCOIN_def OKEX_def POLONIEX_def PROBIT_def UPBIT_def

lemmas channel_defs =
  L2_BOOK_def L3_BOOK_def TRADES_def TICKER_def VOLUME_def FUNDING_def OPEN_INTEREST_def
  LIQUIDATIONS_def FUTURES_INDEX_def UNSUPPORTED_def

lemmas option_defs =
  LIMIT_def MARKET_def FILL_OR_KILL_def IMMEDIATE_OR_CANCEL_def MAKER_OR_CANCEL_def

subsection \<open>What one warm-up writes\<close>

text \<open>
  The loop of \<open>load_exchange_pair_mapping\<close> leaves, under each key, what the last item
  with that key wrote; other keys keep what the registry held.
\<close>

lemma load_pair_backward:
  "exchange_to_std (load_pair e reg (s, x)) = (exchange_to_std reg)(x \<mapsto> s)"
  by (simp add: load_pair_def)

lemma load_pair_forward:
  "std_trading_pairs (load_pair e reg (s, x)) =
     (std_trading_pairs reg)(s \<mapsto>
        (case std_trading_pairs reg s of None \<Rightarrow> Map.empty | Some sub \<Rightarrow> sub)(e \<mapsto> x))"
  by (simp add: load_pair_def split: option.split)

lemma backward_foldl:
  "exchange_to_std (foldl (load_pair e) reg items) k =
     (case map_of (rev (map prod.swap items)) k of
        None \<Rightarrow> exchange_to_std reg k
      | Some s \<Rightarrow> Some s)"
proof (induction items arbitrary: reg)
  case Nil
  show ?case by simp
next
  case (Cons item items)
  obtain s x where item: "item = (s, x)" by (cases item)
  show ?case
    unfolding item
    by (simp add: Cons.IH load_pair_backward map_add_def split: option.split)
qed

lemma forward_foldl:
  "std_trading_pairs (foldl (load_pair e) reg items) s =
     (case map_of (rev items) s of
        None \<Rightarrow> std_trading_pairs reg s
      | Some x \<Rightarrow>
          Some ((case std_trading_pairs reg s of None \<Rightarrow> Map.empty | Some sub \<Rightarrow> sub)(e \<mapsto> x)))"
proof (induction items arbitrary: reg)
  case Nil
  show ?case by simp
next
  case (Cons item items)
  obtain s' x' where item: "item = (s', x')" by (cases item)
  show ?case
    unfolding item
    by (auto simp add: Cons.IH load_pair_forward map_add_def fun_upd_def split: option.split)
qed





subsection \<open>What later warm-ups keep\<close>





subsection \<open>Round trip of a warmed exchange\<close>




subsection \<open>Warming twice\<close>

text \<open>
  Claim C7. A second call of \<open>load_exchange_pair_mapping\<close> for the same exchange with the
  same provider output leaves the registry, that is both dictionaries, as the first call
  left it.
\<close>

theorem load_twice:
  "load_exchange_pair_mapping gen_pairs exchange
     (load_exchange_pair_mapping gen_pairs exchange reg)
   = load_exchange_pair_mapping gen_pairs exchange reg"
proof (cases "exchange \<in> {BITMEX, DERIBIT, KRAKEN_FUTURES}")
  case True
  then show ?thesis by (simp add: load_exchange_pair_mapping_def)
next
  case False
  let ?items = "gen_pairs exchange"
  let ?once = "foldl (load_pair exchange) reg ?items"
  let ?twice = "foldl (load_pair exchange) ?once ?items"
  have "exchange_to_std ?twice k = exchange_to_std ?once k" for k
    by (simp add: backward_foldl [of exchange ?once] backward_foldl [of exchange reg]
        split: option.split)
  then have backward: "exchange_to_std ?twice = exchange_to_std ?once"
    by (rule ext)
  have "std_trading_pairs ?twice s = std_trading_pairs ?once s" for s
    by (simp add: forward_foldl [of exchange ?once] forward_foldl [of exchange reg]
        split: option.split)
  then have forward: "std_trading_pairs ?twice = std_trading_pairs ?once"
    by (rule ext)
  have "?twice = ?once"
    using forward backward by (rule registry.equality) simp
  with False show ?thesis by (simp add: load_exchange_pair_mapping_def)
qed

subsection \<open>Looking a key up in a dictionary display\<close>

text \<open>
  The last item written under a key is the one found; the static tables are read
  through this equation.
\<close>

lemma dict_of_foldl:
  "foldl (\<lambda>m (k, v). m(k \<mapsto> v)) m0 kvs = m0 ++ map_of (rev kvs)"
proof (induction kvs arbitrary: m0)
  case Nil
  show ?case by simp
next
  case (Cons kv kvs)
  let ?put = "\<lambda>m (k, v). m(k \<mapsto> v)"
  obtain k v where kv: "kv = (k, v)" by (cases kv)
  have "foldl ?put m0 (kv # kvs) = foldl ?put (m0(k \<mapsto> v)) kvs"
    by (simp add: kv)
  also have "\<dots> = m0(k \<mapsto> v) ++ map_of (rev kvs)"
    by (rule Cons.IH)
  also have "\<dots> = m0 ++ map_of (rev (kv # kvs))"
    by (rule ext) (simp add: kv map_add_def split: option.split)
  finally show ?case .
qed

lemma dict_of_lookup: "dict_of kvs = map_of (rev kvs)"
  by (simp add: dict_of_def dict_of_foldl)

subsection \<open>Standard symbol to native symbol\<close>

text \<open>
  Claim C2. \<open>pair_std_to_exchange\<close> returns the standard symbol unchanged for the exempt
  exchanges BITMEX, DERIBIT and KRAKEN_FUTURES. For any other exchange: when the symbol
  is a key of the forward dictionary, the result is the entry of the exchange, or
  \<open>UnsupportedTradingPair\<close> when the exchange has none; when the symbol is no key, the
  result is the symbol prefixed with \<open>f\<close> exactly when the exchange is BITFINEX and the
  symbol has no \<open>-\<close>, and \<open>UnsupportedTradingPair\<close> in every other case.
\<close>

theorem pair_std_to_exchange_cases:
  "(exchange \<in> {BITMEX, DERIBIT, KRAKEN_FUTURES} \<longrightarrow>
      pair_std_to_exchange reg standard exchange = Inr standard)
   \<and> (exchange \<notin> {BITMEX, DERIBIT, KRAKEN_FUTURES} \<longrightarrow>
        (\<forall>sub. std_trading_pairs reg standard = Some sub \<longrightarrow>
           (\<forall>native. sub exchange = Some native \<longrightarrow>
              pair_std_to_exchange reg standard exchange = Inr native)
           \<and> (sub exchange = None \<longrightarrow>
                pair_std_to_exchange reg standard exchange =
                  Inl (UnsupportedTradingPair (standard @ '' is not supported on '' @ exchange))))
        \<and> (std_trading_pairs reg standard = None \<longrightarrow>
             (pair_std_to_exchange reg standard exchange = Inr (CHR ''f'' # standard)
                \<longleftrightarrow> exchange = BITFINEX \<and> CHR ''-'' \<notin> set standard)
             \<and> (\<not> (exchange = BITFINEX \<and> CHR ''-'' \<notin> set standard) \<longrightarrow>
                  pair_std_to_exchange reg standard exchange =
                    Inl (UnsupportedTradingPair (standard @ '' is not supported on '' @ exchange)))))"
  by (auto simp: pair_std_to_exchange_def)

text \<open>The forward entry of the sample registry, warmed for KRAKEN only.\<close>

lemma sample_registry_forward:
  "std_trading_pairs sample_registry ''BTC-USD'' = Some [KRAKEN \<mapsto> ''XBT/USD'']"
  by (simp add: sample_registry_def load_exchange_pair_mapping_def load_pair_def
      sample_pairs_def empty_registry_def exchange_defs)

text \<open>
  One input for each case: an exempt exchange, a known symbol with and without an entry
  for the exchange, and an unknown symbol on BITFINEX without and with a separator.
\<close>

theorem pair_std_to_exchange_cases_witness:
  "pair_std_to_exchange empty_registry ''XBTUSD'' BITMEX = Inr ''XBTUSD''
   \<and> pair_std_to_exchange sample_registry ''BTC-USD'' KRAKEN = Inr ''XBT/USD''
   \<and> pair_std_to_exchange sample_registry ''BTC-USD'' COINBASE =
        Inl (UnsupportedTradingPair ''BTC-USD is not supported on COINBASE'')
   \<and> pair_std_to_exchange empty_registry ''BTC'' BITFINEX = Inr ''fBTC''
   \<and> pair_std_to_exchange empty_registry ''BTC-USD'' BITFINEX =
        Inl (UnsupportedTradingPair ''BTC-USD is not supported on BITFINEX'')"
proof -
  have none: "std_trading_pairs empty_registry standard = None" for standard
    by (simp add: empty_registry_def)
  have a: "pair_std_to_exchange empty_registry ''XBTUSD'' BITMEX = Inr ''XBTUSD''"
    using pair_std_to_exchange_cases [of BITMEX empty_registry "''XBTUSD''"] by simp
  have b: "pair_std_to_exchange sample_registry ''BTC-USD'' KRAKEN = Inr ''XBT/USD''"
    using pair_std_to_exchange_cases [of KRAKEN sample_registry "''BTC-USD''"]
      sample_registry_forward
    by (simp add: exchange_defs)
  have c: "pair_std_to_exchange sample_registry ''BTC-USD'' COINBASE =
        Inl (UnsupportedTradingPair ''BTC-USD is not supported on COINBASE'')"
    using pair_std_to_exchange_cases [of COINBASE sample_registry "''BTC-USD''"]
      sample_registry_forward
    by (simp add: exchange_defs)
  have d: "pair_std_to_exchange empty_registry ''BTC'' BITFINEX = Inr ''fBTC''"
    using pair_std_to_exchange_cases [of BITFINEX empty_registry "''BTC''"] none
    by (simp add: exchange_defs)
  have e: "pair_std_to_exchange empty_registry ''BTC-USD'' BITFINEX =
        Inl (UnsupportedTradingPair ''BTC-USD is not supported on BITFINEX'')"
    using pair_std_to_exchange_cases [of BITFINEX empty_registry "''BTC-USD''"] none
    by (simp add: exchange_defs)
  from a b c d e show ?thesis by simp
qed

subsection \<open>Native symbol to standard symbol\<close>

text \<open>
  On a known key \<open>pair_exchange_to_std\<close> returns the entry of the backward dictionary;
  on an unknown symbol with at least one character it strips a leading \<open>f\<close> and returns
  \<open>None\<close> otherwise, so that \<open>fBTC\<close> gives \<open>BTC\<close>.
\<close>

lemma pair_exchange_to_std_known:
  "exchange_to_std reg native = Some s \<Longrightarrow> pair_exchange_to_std reg native = Inr (Some s)"
  by (simp add: pair_exchange_to_std_def)

lemma pair_exchange_to_std_unknown:
  "exchange_to_std reg (c # rest) = None \<Longrightarrow>
     pair_exchange_to_std reg (c # rest) = (if c = CHR ''f'' then Inr (Some rest) else Inr None)"
  by (simp add: pair_exchange_to_std_def)

text \<open>
  Claim C4 says that \<open>pair_exchange_to_std\<close> never fails on an unrecognised native
  symbol. On the empty string, which the empty registry does not know, the subscript
  \<open>pair[0]\<close> raises \<open>IndexError\<close>, and the result is not \<open>None\<close>.
\<close>

theorem pair_exchange_to_std_empty_unwarmed:
  "exchange_to_std empty_registry '''' = None
   \<and> pair_exchange_to_std empty_registry '''' = Inl IndexError
   \<and> pair_exchange_to_std empty_registry '''' \<noteq> Inr None"
  by (simp add: pair_exchange_to_std_def empty_registry_def)

text \<open>
  Claim C10. In every registry whose backward dictionary does not hold the empty string
  as a key, \<open>pair_exchange_to_std\<close> applied to the empty string raises \<open>IndexError\<close>
  instead of returning \<open>None\<close>.
\<close>

theorem pair_exchange_to_std_empty_raises:
  "exchange_to_std reg '''' = None \<Longrightarrow> pair_exchange_to_std reg '''' = Inl IndexError"
  by (simp add: pair_exchange_to_std_def)

text \<open>The same in the registry warmed for KRAKEN, which holds two native symbols.\<close>

theorem pair_exchange_to_std_empty_raises_witness:
  "exchange_to_std sample_registry '''' = None
   \<and> pair_exchange_to_std sample_registry '''' = Inl IndexError"
proof -
  have unknown: "exchange_to_std sample_registry '''' = None"
    by (simp add: sample_registry_def load_exchange_pair_mapping_def load_pair_def
      sample_pairs_def empty_registry_def exchange_defs)
  from unknown pair_exchange_to_std_empty_raises [OF unknown] show ?thesis by (rule conjI)
qed

subsection \<open>Channel translation\<close>

text \<open>What \<open>raise_error\<close> raises, and what it logs.\<close>

lemma raise_error_outcome:
  "fst (raise_error exchange feed silent lg) =
     Inl (UnsupportedDataFeed (feed @ '' is not currently supported on '' @ exchange))"
  by (simp add: raise_error_def Let_def)

lemma raise_error_log:
  "snd (raise_error exchange feed silent lg) =
     (if silent then lg
      else lg @ [UnsupportedDataFeed (feed @ '' is not currently supported on '' @ exchange)])"
  by (simp add: raise_error_def Let_def)

text \<open>
  Claim C9. For every registry, exchange, feed and log, \<open>feed_to_exchange\<close> has the same
  outcome, the value returned or the exception raised, with \<open>silent\<close> set and unset; a
  silent call leaves the log as it was.
\<close>

theorem feed_to_exchange_silent:
  "fst (feed_to_exchange reg exchange feed True lg) =
     fst (feed_to_exchange reg exchange feed False lg)
   \<and> snd (feed_to_exchange reg exchange feed True lg) = lg"
  by (simp add: feed_to_exchange_def raise_error_outcome raise_error_log split: option.split)

text \<open>
  Claim C3. When the pair of feed and exchange is in the static table with a value other
  than \<open>UNSUPPORTED\<close>, \<open>feed_to_exchange\<close> returns that value; when the value is
  \<open>UNSUPPORTED\<close>, or the pair is absent and the exchange is not POLONIEX, it raises
  \<open>UnsupportedDataFeed\<close>. So for an exchange other than POLONIEX, and for POLONIEX on
  a feed that is a key of the table, a value is returned exactly when it is a table value
  other than \<open>UNSUPPORTED\<close>. For COINBASE and TRADES the value is \<open>matches\<close>.
\<close>

theorem feed_to_exchange_table:
  "(\<forall>v. lookup2 feed_to_exchange_map feed exchange = Some v \<and> v \<noteq> PStr UNSUPPORTED \<longrightarrow>
        fst (feed_to_exchange reg exchange feed silent lg) = Inr v)
   \<and> (lookup2 feed_to_exchange_map feed exchange = Some (PStr UNSUPPORTED) \<longrightarrow>
        fst (feed_to_exchange reg exchange feed silent lg) =
          Inl (UnsupportedDataFeed (feed @ '' is not currently supported on '' @ exchange)))
   \<and> (exchange \<noteq> POLONIEX \<and> lookup2 feed_to_exchange_map feed exchange = None \<longrightarrow>
        fst (feed_to_exchange reg exchange feed silent lg) =
          Inl (UnsupportedDataFeed (feed @ '' is not currently supported on '' @ exchange)))
   \<and> (exchange \<noteq> POLONIEX \<or> feed_to_exchange_map feed \<noteq> None \<longrightarrow>
        (\<forall>v. fst (feed_to_exchange reg exchange feed silent lg) = Inr v \<longleftrightarrow>
           lookup2 feed_to_exchange_map feed exchange = Some v \<and> v \<noteq> PStr UNSUPPORTED))
   \<and> fst (feed_to_exchange reg COINBASE TRADES silent lg) = Inr (PStr ''matches'')"
proof (intro conjI)
  show "fst (feed_to_exchange reg COINBASE TRADES silent lg) = Inr (PStr ''matches'')"
    by (simp add: feed_to_exchange_def feed_to_exchange_map_def dict_of_lookup
        exchange_defs channel_defs)
qed (auto simp: feed_to_exchange_def lookup2_def raise_error_outcome split: option.splits)

text \<open>
  KRAKEN with a supported channel, with a channel marked \<open>UNSUPPORTED\<close>, and with a
  channel under which it has no entry.
\<close>

theorem feed_to_exchange_table_witness:
  "fst (feed_to_exchange empty_registry KRAKEN TICKER False []) = Inr (PStr ''ticker'')
   \<and> fst (feed_to_exchange empty_registry KRAKEN L3_BOOK False []) =
        Inl (UnsupportedDataFeed ''l3_book is not currently supported on KRAKEN'')
   \<and> fst (feed_to_exchange empty_registry KRAKEN VOLUME False []) =
        Inl (UnsupportedDataFeed ''volume is not currently supported on KRAKEN'')"
proof -
  have a: "lookup2 feed_to_exchange_map TICKER KRAKEN = Some (PStr ''ticker'')"
    by (simp add: lookup2_def feed_to_exchange_map_def dict_of_lookup exchange_defs channel_defs)
  have b: "lookup2 feed_to_exchange_map L3_BOOK KRAKEN = Some (PStr UNSUPPORTED)"
    by (simp add: lookup2_def feed_to_exchange_map_def dict_of_lookup exchange_defs channel_defs)
  have c: "lookup2 feed_to_exchange_map VOLUME KRAKEN = None"
    by (simp add: lookup2_def feed_to_exchange_map_def dict_of_lookup exchange_defs channel_defs)
  have k: "KRAKEN \<noteq> POLONIEX"
    by (simp add: exchange_defs)
  have u: "PStr ''ticker'' \<noteq> PStr UNSUPPORTED"
    by (simp add: channel_defs)
  from feed_to_exchange_table [of TICKER KRAKEN empty_registry False "[]"] a u
  have ra: "fst (feed_to_exchange empty_registry KRAKEN TICKER False []) = Inr (PStr ''ticker'')"
    by blast
  from feed_to_exchange_table [of L3_BOOK KRAKEN empty_registry False "[]"] b
  have rb: "fst (feed_to_exchange empty_registry KRAKEN L3_BOOK False []) =
      Inl (UnsupportedDataFeed (L3_BOOK @ '' is not currently supported on '' @ KRAKEN))"
    by blast
  from feed_to_exchange_table [of VOLUME KRAKEN empty_registry False "[]"] c k
  have rc: "fst (feed_to_exchange empty_registry KRAKEN VOLUME False []) =
      Inl (UnsupportedDataFeed (VOLUME @ '' is not currently supported on '' @ KRAKEN))"
    by blast
  from ra rb rc show ?thesis
    by (simp add: exchange_defs channel_defs)
qed

text \<open>
  Claim C5, as stated, fails: FUNDING is a key of the table under which POLONIEX has no
  entry, so it is no channel name of that exchange, yet \<open>feed_to_exchange\<close> does not
  delegate to \<open>pair_std_to_exchange\<close>. It raises \<open>UnsupportedDataFeed\<close>, where the
  delegation raises \<open>UnsupportedTradingPair\<close>.
\<close>

theorem poloniex_known_channel_counterexample:
  "lookup2 feed_to_exchange_map FUNDING POLONIEX = None
   \<and> fst (feed_to_exchange empty_registry POLONIEX FUNDING False []) =
       Inl (UnsupportedDataFeed ''funding is not currently supported on POLONIEX'')
   \<and> map_sum id PStr (pair_std_to_exchange empty_registry FUNDING POLONIEX) =
       Inl (UnsupportedTradingPair ''funding is not supported on POLONIEX'')
   \<and> fst (feed_to_exchange empty_registry POLONIEX FUNDING False []) \<noteq>
       map_sum id PStr (pair_std_to_exchange empty_registry FUNDING POLONIEX)"
  by (simp add: lookup2_def feed_to_exchange_def feed_to_exchange_map_def dict_of_lookup
      raise_error_outcome pair_std_to_exchange_def empty_registry_def
      exchange_defs channel_defs)

text \<open>
  Claim C5, as amended. For POLONIEX, when the feed is not a key of the static table at
  all, that is a channel name of no exchange, \<open>feed_to_exchange\<close> returns what
  \<open>pair_std_to_exchange\<close> gives for the feed read as a standard symbol, and logs
  nothing. When the feed is a key of the table without a POLONIEX entry, it raises
  \<open>UnsupportedDataFeed\<close>.
\<close>

theorem poloniex_delegates_unknown_channel:
  "(feed_to_exchange_map feed = None \<longrightarrow>
      feed_to_exchange reg POLONIEX feed silent lg =
        (map_sum id PStr (pair_std_to_exchange reg feed POLONIEX), lg))
   \<and> (\<forall>by_exchange. feed_to_exchange_map feed = Some by_exchange
          \<and> by_exchange POLONIEX = None \<longrightarrow>
        fst (feed_to_exchange reg POLONIEX feed silent lg) =
          Inl (UnsupportedDataFeed (feed @ '' is not currently supported on '' @ POLONIEX)))"
  by (simp add: feed_to_exchange_def raise_error_outcome)

text \<open>
  A subscription to the symbol \<open>BTC-USD\<close> on POLONIEX, in the registry warmed for it.
\<close>

theorem poloniex_delegates_unknown_channel_witness:
  "feed_to_exchange_map ''BTC-USD'' = None
   \<and> feed_to_exchange poloniex_registry POLONIEX ''BTC-USD'' False [] =
       (Inr (PStr ''XBT/USD''), [])"
proof -
  have unknown: "feed_to_exchange_map ''BTC-USD'' = None"
    by (simp add: feed_to_exchange_map_def dict_of_lookup channel_defs)
  have native: "pair_std_to_exchange poloniex_registry ''BTC-USD'' POLONIEX = Inr ''XBT/USD''"
    by (simp add: pair_std_to_exchange_def poloniex_registry_def
        load_exchange_pair_mapping_def load_pair_def sample_pairs_def empty_registry_def
        exchange_defs)
  from poloniex_delegates_unknown_channel [of "''BTC-USD''" poloniex_registry False "[]"]
    unknown
  have "feed_to_exchange poloniex_registry POLONIEX ''BTC-USD'' False [] =
      (map_sum id PStr (pair_std_to_exchange poloniex_registry ''BTC-USD'' POLONIEX), [])"
    by blast
  with unknown native show ?thesis by simp
qed

subsection \<open>Order options\<close>

text \<open>
  Claim C6. \<open>normalize_trading_options\<close> raises \<open>UnsupportedTradingOption\<close> in exactly
  three cases: the option is no key of the static table, the exchange has no entry under
  the option, or the entry is \<open>UNSUPPORTED\<close>. Otherwise it returns the entry as it is.
  KRAKEN with \<open>limit\<close> gives \<open>limit\<close>; GEMINI with \<open>market\<close> fails.
\<close>

theorem normalize_trading_options_cases:
  "(normalize_trading_options exchange option = Inl UnsupportedTradingOption \<longleftrightarrow>
      exchange_options option = None
      \<or> (\<exists>by_exchange. exchange_options option = Some by_exchange
             \<and> by_exchange exchange = None)
      \<or> lookup2 exchange_options option exchange = Some (PStr UNSUPPORTED))
   \<and> (\<forall>v. lookup2 exchange_options option exchange = Some v \<and> v \<noteq> PStr UNSUPPORTED \<longrightarrow>
          normalize_trading_options exchange option = Inr v)
   \<and> normalize_trading_options ''KRAKEN'' ''limit'' = Inr (PStr ''limit'')
   \<and> normalize_trading_options ''GEMINI'' ''market'' = Inl UnsupportedTradingOption"
proof (intro conjI)
  show "normalize_trading_options ''KRAKEN'' ''limit'' = Inr (PStr ''limit'')"
    by (simp add: normalize_trading_options_def exchange_options_def dict_of_lookup
        exchange_defs channel_defs option_defs)
  show "normalize_trading_options ''GEMINI'' ''market'' = Inl UnsupportedTradingOption"
    by (simp add: normalize_trading_options_def exchange_options_def dict_of_lookup
        exchange_defs channel_defs option_defs)
qed (auto simp: normalize_trading_options_def lookup2_def split: option.splits)

text \<open>
  COINBASE has a dictionary under FILL_OR_KILL, which is returned; BLOCKCHAIN has no
  entry under MAKER_OR_CANCEL.
\<close>

theorem normalize_trading_options_cases_witness:
  "normalize_trading_options COINBASE FILL_OR_KILL = Inr (PDict [(''time_in_force'', PStr ''FOK'')])
   \<and> normalize_trading_options BLOCKCHAIN MAKER_OR_CANCEL = Inl UnsupportedTradingOption"
proof -
  have a: "lookup2 exchange_options FILL_OR_KILL COINBASE =
      Some (PDict [(''time_in_force'', PStr ''FOK'')])"
    by (simp add: lookup2_def exchange_options_def dict_of_lookup exchange_defs option_defs)
  have b: "\<exists>by_exchange. exchange_options MAKER_OR_CANCEL = Some by_exchange
      \<and> by_exchange BLOCKCHAIN = None"
    by (simp add: exchange_options_def dict_of_lookup exchange_defs option_defs)
  from normalize_trading_options_cases [of COINBASE FILL_OR_KILL] a
  have ra: "normalize_trading_options COINBASE FILL_OR_KILL =
      Inr (PDict [(''time_in_force'', PStr ''FOK'')])"
    by simp
  from normalize_trading_options_cases [of BLOCKCHAIN MAKER_OR_CANCEL] b
  have rb: "normalize_trading_options BLOCKCHAIN MAKER_OR_CANCEL = Inl UnsupportedTradingOption"
    by blast
  from ra rb show ?thesis by (rule conjI)
qed

subsection \<open>Timestamps\<close>

text \<open>
  Claim C8. \<open>timestamp_normalize\<close> returns \<open>ts / 1000\<close> for every exchange of the
  millisecond class, \<open>ts / 1000000\<close> for every exchange of the microsecond class
  (BITSTAMP), and \<open>ts\<close> unchanged for every exchange listed in no class. For BINANCE
  and \<open>1600000000000\<close> the result is \<open>1600000000\<close>; that quotient is exact, so the
  division of the reals stands for the division of floats there.
\<close>

theorem timestamp_normalize_classes:
  "(exchange \<in> millisecond_exchanges \<longrightarrow>
      timestamp_normalize pd_timestamp truediv exchange ts = truediv ts 1000)
   \<and> (exchange \<in> microsecond_exchanges \<longrightarrow>
        timestamp_normalize pd_timestamp truediv exchange ts = truediv ts 1000000)
   \<and> (exchange \<notin> parsed_exchanges \<union> millisecond_exchanges \<union> microsecond_exchanges \<longrightarrow>
        timestamp_normalize pd_timestamp truediv exchange ts = ts)
   \<and> timestamp_normalize parse (/) BINANCE (1600000000000 :: real) = 1600000000"
proof (intro conjI impI)
  assume "exchange \<in> millisecond_exchanges"
  then show "timestamp_normalize pd_timestamp truediv exchange ts = truediv ts 1000"
    unfolding millisecond_exchanges_def timestamp_normalize_def
    by (auto simp: exchange_defs)
next
  assume "exchange \<in> microsecond_exchanges"
  then show "timestamp_normalize pd_timestamp truediv exchange ts = truediv ts 1000000"
    unfolding microsecond_exchanges_def timestamp_normalize_def
    by (simp add: exchange_defs)
next
  assume "exchange \<notin> parsed_exchanges \<union> millisecond_exchanges \<union> microsecond_exchanges"
  then show "timestamp_normalize pd_timestamp truediv exchange ts = ts"
    unfolding parsed_exchanges_def millisecond_exchanges_def microsecond_exchanges_def
      timestamp_normalize_def
    by simp
next
  show "timestamp_normalize parse (/) BINANCE (1600000000000 :: real) = 1600000000"
    by (simp add: timestamp_normalize_def exchange_defs)
qed

text \<open>
  One exchange of each kind: HUOBI in milliseconds, BITSTAMP in microseconds, and KRAKEN,
  which the source lists in no class.
\<close>

theorem timestamp_normalize_classes_witness:
  "timestamp_normalize id (/) HUOBI (1600000000000 :: real) = 1600000000
   \<and> timestamp_normalize id (/) BITSTAMP (1600000000000000 :: real) = 1600000000
   \<and> timestamp_normalize id (/) KRAKEN (1600000000 :: real) = 1600000000"
proof -
  have a: "HUOBI \<in> millisecond_exchanges"
    by (simp add: millisecond_exchanges_def)
  have b: "BITSTAMP \<in> microsecond_exchanges"
    by (simp add: microsecond_exchanges_def)
  have c: "KRAKEN \<notin> parsed_exchanges \<union> millisecond_exchanges \<union> microsecond_exchanges"
    by (simp add: parsed_exchanges_def millisecond_exchanges_def microsecond_exchanges_def
        exchange_defs)
  from a timestamp_normalize_classes [of HUOBI id "(/)" "1600000000000 :: real"]
  have ra: "timestamp_normalize id (/) HUOBI (1600000000000 :: real) = 1600000000000 / 1000"
    by blast
  from b timestamp_normalize_classes [of BITSTAMP id "(/)" "1600000000000000 :: real"]
  have rb: "timestamp_normalize id (/) BITSTAMP (1600000000000000 :: real) =
      1600000000000000 / 1000000"
    by blast
  from c timestamp_normalize_classes [of KRAKEN id "(/)" "1600000000 :: real"]
  have rc: "timestamp_normalize id (/) KRAKEN (1600000000 :: real) = 1600000000"
    by blast
  from ra rb rc show ?thesis by simp
qed

end
